theory Spec2Isabelle
  imports Main
begin

section \<open>Python values used by the application controllers\<close>

text \<open>
  The sources are Python 2: a \<open>str\<close> is a byte string (here \<open>string\<close>), integers are
  unbounded (\<open>int\<close>), \<open>/\<close> on two integers is floor division, and an exception is a
  value of type \<open>error\<close> returned on the left of a sum.
\<close>

datatype error = ValueError | DataError | NameError | KeyError | TypeError | IOError

definition newline :: char where
  "newline = CHR 0x0A"

text \<open>\<open>s.startswith(p)\<close>\<close>

definition startswith :: "string \<Rightarrow> string \<Rightarrow> bool" where
  "startswith s p = (take (length p) s = p)"

text \<open>\<open>s.strip(chars)\<close>: drop every leading and every trailing character that is in \<open>chars\<close>.\<close>

definition strip :: "string \<Rightarrow> string \<Rightarrow> string" where
  "strip s chars =
     rev (dropWhile (\<lambda>c. c \<in> set chars) (rev (dropWhile (\<lambda>c. c \<in> set chars) s)))"

text \<open>\<open>sep.join(xs)\<close>\<close>

fun join :: "string \<Rightarrow> string list \<Rightarrow> string" where
  "join sep [] = []"
| "join sep [x] = x"
| "join sep (x # y # ys) = x @ sep @ join sep (y # ys)"

text \<open>
  \<open>f.readlines()\<close> on the content of a file: the lines in order, each with its
  terminating newline, the last one without when the content does not end in a newline.
\<close>

fun readlines :: "string \<Rightarrow> string list" where
  "readlines [] = []"
| "readlines (c # cs) =
     (if c = newline then [c] # readlines cs
      else (case readlines cs of [] \<Rightarrow> [[c]] | l # ls \<Rightarrow> (c # l) # ls))"

text \<open>
  The data an application is called on: a list of records, or a string (a file name).
  \<open>isinstance(data, list)\<close> tells them apart.
\<close>

datatype input_data = ListData "string list" | StrData string

text \<open>The file system: the content of each file that exists.\<close>

type_synonym filesystem = "string \<rightharpoonup> string"

text \<open>\<open>open(path).readlines()\<close>\<close>

definition open_readlines :: "filesystem \<Rightarrow> string \<Rightarrow> error + string list" where
  "open_readlines fs path =
     (case fs path of None \<Rightarrow> Inl IOError | Some content \<Rightarrow> Inr (readlines content))"

section \<open>Collaborators from cogent.app.util and cogent.app.parameters\<close>

text \<open>
  \<open>ResultPath(Path, IsWritten=True)\<close>: a declared output file and whether the wrapper
  expects it to have been written.
\<close>

record ResultPath =
  Path :: string
  IsWritten :: bool

definition mkResultPath :: "string \<Rightarrow> ResultPath" where
  "mkResultPath p = \<lparr>Path = p, IsWritten = True\<rparr>"

type_synonym result_paths = "string \<rightharpoonup> ResultPath"

text \<open>
  A parameter of an application, as far as the controllers of this repository read it:
  the outcome of \<open>isOn()\<close> and \<open>str(Value)\<close>. The parameter classes themselves are
  not among the sources, so both are given with the application.
\<close>

record parameter =
  isOn :: bool
  Value :: string

text \<open>
  An application instance: its working directory, its parameters by flag, and
  \<open>_absolute\<close> (of the base class, which is not among the sources).
\<close>

record application =
  WorkingDir :: string
  Parameters :: "string \<Rightarrow> parameter"
  absolute :: "string \<Rightarrow> string"

section \<open>RNAfold\<close>

text \<open>The variables of the scan in \<open>_get_result_paths\<close>.\<close>

record scan_state =
  result :: result_paths
  name_counter :: int
  seq_counter :: int

definition scan_init :: scan_state where
  "scan_init = \<lparr>result = Map.empty, name_counter = 0, seq_counter = 0\<rparr>"

text \<open>One iteration of \<open>for item in data\<close> of \<open>RNAfold._get_result_paths\<close>.\<close>

definition RNAfold_step :: "application \<Rightarrow> string \<Rightarrow> scan_state \<Rightarrow> scan_state" where
  "RNAfold_step app item st =
     (if startswith item ''>'' then
        (let name = strip item [CHR ''>'', newline] in
         st\<lparr>name_counter := name_counter st + 1,
            result := (result st)
              (name @ ''_ss'' \<mapsto> mkResultPath (WorkingDir app @ name @ ''_ss.ps''),
               name @ ''_dp'' \<mapsto>
                 \<lparr>Path = WorkingDir app @ name @ ''_dp.ps'',
                  IsWritten = isOn (Parameters app ''-p'')\<rparr>)\<rparr>)
      else st\<lparr>seq_counter := seq_counter st + 1\<rparr>)"

fun RNAfold_scan :: "application \<Rightarrow> string list \<Rightarrow> scan_state \<Rightarrow> scan_state" where
  "RNAfold_scan app [] st = st"
| "RNAfold_scan app (item # data) st = RNAfold_scan app data (RNAfold_step app item st)"

text \<open>The two default entries written after the scan.\<close>

definition RNAfold_defaults :: "application \<Rightarrow> scan_state \<Rightarrow> result_paths" where
  "RNAfold_defaults app st =
     (result st)
       (''SS'' \<mapsto> \<lparr>Path = WorkingDir app @ ''rna.ps'',
                  IsWritten = (seq_counter st - name_counter st > 0)\<rparr>,
        ''DP'' \<mapsto> \<lparr>Path = WorkingDir app @ ''dot.ps'',
                  IsWritten = (isOn (Parameters app ''-p'') \<and>
                               seq_counter st - name_counter st > 0)\<rparr>)"

definition RNAfold_get_result_paths ::
    "filesystem \<Rightarrow> application \<Rightarrow> input_data \<Rightarrow> error + result_paths" where
  "RNAfold_get_result_paths fs app data =
     (case (case data of ListData xs \<Rightarrow> Inr xs | StrData path \<Rightarrow> open_readlines fs path) of
        Inl e \<Rightarrow> Inl e
      | Inr xs \<Rightarrow> Inr (RNAfold_defaults app (RNAfold_scan app xs scan_init)))"

text \<open>The entry under a key of a resolved mapping; none when resolution raised.\<close>

definition entry :: "error + result_paths \<Rightarrow> string \<Rightarrow> ResultPath option" where
  "entry res k = (case res of Inl e \<Rightarrow> None | Inr r \<Rightarrow> r k)"

text \<open>What the scan counts: the name-marked records and the others.\<close>

definition named_records :: "string list \<Rightarrow> string list" where
  "named_records data = filter (\<lambda>item. startswith item ''>'') data"

definition anonymous_records :: "string list \<Rightarrow> string list" where
  "anonymous_records data = filter (\<lambda>item. \<not> startswith item ''>'') data"

definition record_name :: "string \<Rightarrow> string" where
  "record_name item = strip item [CHR ''>'', newline]"

text \<open>The per-name keys a scan registers: \<open>name + '_ss'\<close> and \<open>name + '_dp'\<close>.\<close>

definition ss_keys :: "string list \<Rightarrow> string set" where
  "ss_keys data = (\<lambda>item. record_name item @ ''_ss'') ` set (named_records data)"

definition dp_keys :: "string list \<Rightarrow> string set" where
  "dp_keys data = (\<lambda>item. record_name item @ ''_dp'') ` set (named_records data)"

text \<open>
  The named artifact groups of a mapping: the bare names \<open>n\<close> whose key \<open>n + '_ss'\<close> is
  present. A set, so it is read off the mapping and not off the input.
\<close>

definition named_groups :: "result_paths \<Rightarrow> string set" where
  "named_groups r = {n. n @ ''_ss'' \<in> dom r}"

section \<open>RNAplot\<close>

text \<open>The class attribute \<open>RNAplot.FILETYPE_TO_EXTENSION\<close>.\<close>

definition FILETYPE_TO_EXTENSION :: "string \<rightharpoonup> string" where
  "FILETYPE_TO_EXTENSION =
     [''ps'' \<mapsto> ''.ps'', ''gml'' \<mapsto> ''.gml'', ''svg'' \<mapsto> ''.svg'', ''xrna'' \<mapsto> ''.ss'']"

text \<open>
  The tables bound to a name at module level of \<open>vienna_package.py\<close>. The module binds
  its imports, its three classes and its two functions, and no table: the table above is
  bound in the body of class \<open>RNAplot\<close>, which is a namespace of its own. A bare name in
  a method body is looked up in the module (then the builtins), never in the class, and
  a name that is not found raises \<open>NameError\<close>.
\<close>

definition module_globals :: "string \<rightharpoonup> (string \<rightharpoonup> string)" where
  "module_globals = Map.empty"

definition load_global :: "string \<Rightarrow> error + (string \<rightharpoonup> string)" where
  "load_global name = (case module_globals name of None \<Rightarrow> Inl NameError | Some t \<Rightarrow> Inr t)"

text \<open>\<open>table[key]\<close>\<close>

definition getitem :: "(string \<rightharpoonup> string) \<Rightarrow> string \<Rightarrow> error + string" where
  "getitem table key = (case table key of None \<Rightarrow> Inl KeyError | Some v \<Rightarrow> Inr v)"

text \<open>
  \<open>RNAplot._get_outfile_extension\<close>: the last line reads the bare name
  \<open>FILETYPE_TO_EXTENSION\<close>, not \<open>self.FILETYPE_TO_EXTENSION\<close>.
\<close>

definition RNAplot_get_outfile_extension :: "application \<Rightarrow> error + string" where
  "RNAplot_get_outfile_extension app =
     (if \<not> isOn (Parameters app ''-o'') then Inr ''.ps''
      else
        (let filetype = absolute app (Value (Parameters app ''-o'')) in
         case load_global ''FILETYPE_TO_EXTENSION'' of
           Inl e \<Rightarrow> Inl e
         | Inr table \<Rightarrow> getitem table filetype))"

text \<open>One iteration of \<open>for item in data\<close> of \<open>RNAplot._get_result_paths\<close>.\<close>

definition RNAplot_step :: "application \<Rightarrow> string \<Rightarrow> string \<Rightarrow> scan_state \<Rightarrow> scan_state" where
  "RNAplot_step app res_extension item st =
     (if startswith item ''>'' then
        (let name = strip item [CHR ''>'', newline] in
         st\<lparr>name_counter := name_counter st + 1,
            result := (result st)
              (name @ ''_ss'' \<mapsto>
                 mkResultPath (WorkingDir app @ name @ ''_ss'' @ res_extension))\<rparr>)
      else st\<lparr>seq_counter := seq_counter st + 1\<rparr>)"

fun RNAplot_scan :: "application \<Rightarrow> string \<Rightarrow> string list \<Rightarrow> scan_state \<Rightarrow> scan_state" where
  "RNAplot_scan app res_extension [] st = st"
| "RNAplot_scan app res_extension (item # data) st =
     RNAplot_scan app res_extension data (RNAplot_step app res_extension item st)"

text \<open>The default entry, written only under the test; \<open>/\<close> is floor division.\<close>

definition RNAplot_default :: "application \<Rightarrow> string \<Rightarrow> scan_state \<Rightarrow> result_paths" where
  "RNAplot_default app res_extension st =
     (if seq_counter st div 2 - name_counter st > 0 then
        (result st)(''SS'' \<mapsto> \<lparr>Path = WorkingDir app @ ''rna'' @ res_extension,
                                IsWritten = True\<rparr>)
      else result st)"

definition RNAplot_get_result_paths ::
    "filesystem \<Rightarrow> application \<Rightarrow> input_data \<Rightarrow> error + result_paths" where
  "RNAplot_get_result_paths fs app data =
     (case (case data of ListData xs \<Rightarrow> Inr xs | StrData path \<Rightarrow> open_readlines fs path) of
        Inl e \<Rightarrow> Inl e
      | Inr xs \<Rightarrow>
          (case RNAplot_get_outfile_extension app of
             Inl e \<Rightarrow> Inl e
           | Inr res_extension \<Rightarrow>
               Inr (RNAplot_default app res_extension
                      (RNAplot_scan app res_extension xs scan_init))))"

section \<open>Instances used in the examples\<close>

text \<open>
  Modelled from the spec: the parameter classes and the base class of the applications
  are not among the sources. A parameter is on when it holds a value (other than False
  for a mixed parameter) and off otherwise, so of the catalogue \<open>RNAfold._parameters\<close>
  a fresh instance has \<open>-T\<close>, \<open>-d\<close> and \<open>-S\<close> on and nothing else; no parameter of
  \<open>RNAplot._parameters\<close> is constructed with a value. \<open>_absolute\<close> leaves an absolute
  path as it is and puts the working directory before any other.
\<close>

definition RNAfold_parameters :: "string \<Rightarrow> parameter" where
  "RNAfold_parameters flag =
     (if flag = ''-T'' then \<lparr>isOn = True, Value = ''37''\<rparr>
      else if flag = ''-d'' then \<lparr>isOn = True, Value = ''1''\<rparr>
      else if flag = ''-S'' then \<lparr>isOn = True, Value = ''1.07''\<rparr>
      else if flag = ''-p'' then \<lparr>isOn = False, Value = ''False''\<rparr>
      else \<lparr>isOn = False, Value = ''None''\<rparr>)"

definition RNAplot_parameters :: "string \<Rightarrow> parameter" where
  "RNAplot_parameters flag = \<lparr>isOn = False, Value = ''None''\<rparr>"

definition absolute_in :: "string \<Rightarrow> string \<Rightarrow> string" where
  "absolute_in wd p = (if startswith p ''/'' then p else wd @ p)"

definition new_application :: "string \<Rightarrow> (string \<Rightarrow> parameter) \<Rightarrow> application" where
  "new_application wd ps = \<lparr>WorkingDir = wd, Parameters = ps, absolute = absolute_in wd\<rparr>"

definition no_files :: filesystem where
  "no_files = Map.empty"

section \<open>The helper functions of vienna\_package.py\<close>

text \<open>
  Everything a helper does from the construction of the application on (switching
  parameters, the call of the external program, parsing its output, \<open>cleanUp\<close>) is the
  function \<open>run\<close>: from the records the application is called on and the state of the
  world to an outcome and the new state. The checks before it are the helper's own.
\<close>

type_synonym ('w, 'r) external = "string list \<Rightarrow> 'w \<Rightarrow> (error + 'r) \<times> 'w"

definition get_constrained_fold ::
    "('w, 'r) external \<Rightarrow> string \<Rightarrow> string \<Rightarrow> 'w \<Rightarrow> (error + 'r) \<times> 'w" where
  "get_constrained_fold run_RNAfold sequence constraint_string w =
     (if sequence = [] then (Inl ValueError, w)
      else if constraint_string = [] then (Inl ValueError, w)
      else if length sequence \<noteq> length constraint_string then (Inl ValueError, w)
      else run_RNAfold [sequence, constraint_string] w)"

text \<open>
  Modelled from the spec: \<open>ViennaStructure\<close> (cogent.struct.rna2d) is not among the
  sources. It is the structure-validity parser of the spec, a string type whose
  construction "will handle errors in struct string": it raises on a string that is not
  a valid structure and is the string itself otherwise. Which strings are valid is the
  parameter \<open>valid\<close>.
\<close>

definition ViennaStructure :: "(string \<Rightarrow> bool) \<Rightarrow> string \<Rightarrow> error + string" where
  "ViennaStructure valid s = (if valid s then Inr s else Inl ValueError)"

text \<open>
  \<open>plot_from_seq_and_struct\<close>; \<open>tmp_seqname\<close> is the name \<open>_get_tmp_seqname\<close> draws
  when no \<open>seqname\<close> is given.
\<close>

definition plot_from_seq_and_struct ::
    "(string \<Rightarrow> bool) \<Rightarrow> string \<Rightarrow> ('w, 'r) external \<Rightarrow>
     string \<Rightarrow> string \<Rightarrow> string option \<Rightarrow> 'w \<Rightarrow> (error + 'r) \<times> 'w" where
  "plot_from_seq_and_struct valid tmp_seqname run_RNAplot seq struct seqname w =
     (case ViennaStructure valid struct of
        Inl e \<Rightarrow> (Inl e, w)
      | Inr struct' \<Rightarrow>
          if length seq \<noteq> length struct' then (Inl DataError, w)
          else
            (let seqname' = (case seqname of None \<Rightarrow> tmp_seqname | Some n \<Rightarrow> n)
             in run_RNAplot [''>'' @ seqname', seq, struct'] w))"

text \<open>
  For the examples: an external program that only records what it was called on, and the
  structures over \<open>(\<close>, \<open>.\<close> and \<open>)\<close>.
\<close>

definition recording :: "(string list list, string list) external" where
  "recording records w = (Inr records, w @ [records])"

definition vienna_alphabet :: "string \<Rightarrow> bool" where
  "vienna_alphabet s = list_all (\<lambda>c. c \<in> set ''(.)'') s"

section \<open>The cove wrappers\<close>

text \<open>
  What input adaptation changes: the files, and the attribute \<open>_input_filename\<close> of the
  instance.
\<close>

record adapter_state =
  files :: filesystem
  input_filename :: "string option"

text \<open>\<open>open(path, 'w')\<close> and \<open>f.write(s)\<close> on the file at \<open>path\<close>.\<close>

definition open_w :: "string \<Rightarrow> filesystem \<Rightarrow> filesystem" where
  "open_w path fs = fs(path \<mapsto> [])"

definition file_write :: "string \<Rightarrow> string \<Rightarrow> filesystem \<Rightarrow> filesystem" where
  "file_write path s fs = fs(path \<mapsto> (case fs path of None \<Rightarrow> s | Some old \<Rightarrow> old @ s))"

text \<open>
  \<open>Covet._input_as_string\<close> (\<open>Coves\<close>, \<open>Covee\<close> and \<open>Covea\<close> have the same body);
  \<open>super_input_as_string\<close> is the method of the base class.
\<close>

definition Covet_input_as_string :: "(string \<Rightarrow> string) \<Rightarrow> string \<Rightarrow> string" where
  "Covet_input_as_string super_input_as_string filename =
     join '' '' [filename @ ''.cm'', super_input_as_string filename]"

text \<open>
  \<open>Covet._input_as_lines\<close>; \<open>tmp\<close> is the name \<open>getTmpFilename(self.WorkingDir)\<close>
  returns. The records are strings, so \<open>str(d)\<close> is \<open>d\<close>.
\<close>

definition Covet_input_as_lines ::
    "string \<Rightarrow> string list \<Rightarrow> adapter_state \<Rightarrow> string \<times> adapter_state" where
  "Covet_input_as_lines tmp data st =
     (let filename = tmp;
          fs1 = open_w filename (files st);
          data_to_file = join [newline] (map (\<lambda>d. strip d [newline]) data);
          fs2 = file_write filename data_to_file fs1;
          fs3 = file_write filename [newline] fs2
      in (join '' '' [filename @ ''.cm'', filename],
          st\<lparr>files := fs3, input_filename := Some filename\<rparr>))"

text \<open>
  \<open>Covee._input_as_lines\<close> (\<open>Covea\<close> has the same body): the list display evaluates
  \<open>data + '.cm'\<close> first, which raises \<open>TypeError\<close> when \<open>data\<close> is a list, and joins with
  the empty string. \<open>super_input_as_lines\<close> is the method of the base class.
\<close>

definition Covee_input_as_lines ::
    "(input_data \<Rightarrow> adapter_state \<Rightarrow> (error + string) \<times> adapter_state) \<Rightarrow>
     input_data \<Rightarrow> adapter_state \<Rightarrow> (error + string) \<times> adapter_state" where
  "Covee_input_as_lines super_input_as_lines data st =
     (case data of
        ListData xs \<Rightarrow> (Inl TypeError, st)
      | StrData name \<Rightarrow>
          (case super_input_as_lines data st of
             (Inl e, st') \<Rightarrow> (Inl e, st')
           | (Inr tmp, st') \<Rightarrow> (Inr (join [] [name @ ''.cm'', tmp]), st')))"

definition adapter_init :: adapter_state where
  "adapter_init = \<lparr>files = no_files, input_filename = None\<rparr>"

section \<open>Facts about keys and counters\<close>

lemma ss_neq_dp: "n @ ''_ss'' \<noteq> m @ ''_dp''"
proof
  assume "n @ ''_ss'' = m @ ''_dp''"
  then have "last (n @ ''_ss'') = last (m @ ''_dp'')" by simp
  then show False by simp
qed

lemma suffixed_neq_default:
  "n @ ''_ss'' \<noteq> ''SS''" "n @ ''_ss'' \<noteq> ''DP''" "n @ ''_dp'' \<noteq> ''SS''" "n @ ''_dp'' \<noteq> ''DP''"
proof -
  have "last (n @ ''_ss'') \<noteq> last ''SS''" "last (n @ ''_ss'') \<noteq> last ''DP''"
       "last (n @ ''_dp'') \<noteq> last ''SS''" "last (n @ ''_dp'') \<noteq> last ''DP''"
    by simp_all
  then show "n @ ''_ss'' \<noteq> ''SS''" "n @ ''_ss'' \<noteq> ''DP''"
            "n @ ''_dp'' \<noteq> ''SS''" "n @ ''_dp'' \<noteq> ''DP''"
    by metis+
qed

lemma default_notin_keys:
  "''SS'' \<notin> ss_keys xs" "''SS'' \<notin> dp_keys xs" "''DP'' \<notin> ss_keys xs" "''DP'' \<notin> dp_keys xs"
  using suffixed_neq_default
  by (auto simp: ss_keys_def dp_keys_def simp del: append_eq_Cons_conv)

lemma ss_key_iff: "n @ ''_ss'' \<in> ss_keys xs \<longleftrightarrow> n \<in> record_name ` set (named_records xs)"
  by (auto simp: ss_keys_def)

lemma ss_key_notin_dp: "n @ ''_ss'' \<notin> dp_keys xs"
  using ss_neq_dp[of n] by (auto simp: dp_keys_def)

lemma dp_key_notin_ss: "n @ ''_dp'' \<notin> ss_keys xs"
  using ss_neq_dp[of _ n] by (auto simp: ss_keys_def)

lemma length_records:
  "length data = length (named_records data) + length (anonymous_records data)"
  by (simp add: named_records_def anonymous_records_def sum_length_filter_compl)

subsection \<open>The scan of RNAfold\<close>

lemma counters_RNAfold_scan:
  "name_counter (RNAfold_scan app xs st) = name_counter st + int (length (named_records xs))"
  "seq_counter (RNAfold_scan app xs st) = seq_counter st + int (length (anonymous_records xs))"
  by (induction xs arbitrary: st)
     (simp_all add: RNAfold_step_def named_records_def anonymous_records_def Let_def)

text \<open>
  The path under a per-name key is the working directory, the key and \<open>.ps\<close>, so the
  entry is a function of the key, whichever record wrote it last.
\<close>

lemma result_RNAfold_scan:
  "result (RNAfold_scan app xs st) k =
     (if k \<in> ss_keys xs then Some (mkResultPath (WorkingDir app @ k @ ''.ps''))
      else if k \<in> dp_keys xs then
        Some \<lparr>Path = WorkingDir app @ k @ ''.ps'', IsWritten = isOn (Parameters app ''-p'')\<rparr>
      else result st k)"
proof (induction xs arbitrary: st)
  case Nil
  then show ?case by (simp add: ss_keys_def dp_keys_def named_records_def)
next
  case (Cons item xs)
  show ?case
  proof (cases "startswith item ''>''")
    case True
    then show ?thesis
      using ss_neq_dp[of _ "record_name item"] ss_neq_dp[of "record_name item"]
      apply (simp add: Cons RNAfold_step_def Let_def ss_keys_def dp_keys_def named_records_def
          record_name_def[symmetric])
      apply (auto simp: record_name_def)
      done
  next
    case False
    then show ?thesis
      by (simp add: Cons RNAfold_step_def ss_keys_def dp_keys_def named_records_def)
  qed
qed

lemma RNAfold_list:
  "RNAfold_get_result_paths fs app (ListData xs) =
     Inr (RNAfold_defaults app (RNAfold_scan app xs scan_init))"
  by (simp add: RNAfold_get_result_paths_def)

lemma RNAfold_at:
  "RNAfold_defaults app (RNAfold_scan app xs scan_init) k =
     (if k = ''DP'' then
        Some \<lparr>Path = WorkingDir app @ ''dot.ps'',
              IsWritten = (isOn (Parameters app ''-p'') \<and>
                           length (named_records xs) < length (anonymous_records xs))\<rparr>
      else if k = ''SS'' then
        Some \<lparr>Path = WorkingDir app @ ''rna.ps'',
              IsWritten = (length (named_records xs) < length (anonymous_records xs))\<rparr>
      else if k \<in> ss_keys xs then Some (mkResultPath (WorkingDir app @ k @ ''.ps''))
      else if k \<in> dp_keys xs then
        Some \<lparr>Path = WorkingDir app @ k @ ''.ps'', IsWritten = isOn (Parameters app ''-p'')\<rparr>
      else None)"
  by (simp add: RNAfold_defaults_def result_RNAfold_scan counters_RNAfold_scan scan_init_def)

lemma RNAfold_entry:
  "entry (RNAfold_get_result_paths fs app (ListData xs)) k =
     RNAfold_defaults app (RNAfold_scan app xs scan_init) k"
  by (simp add: entry_def RNAfold_list)

lemma named_groups_RNAfold:
  "named_groups (RNAfold_defaults app (RNAfold_scan app xs scan_init)) =
     record_name ` set (named_records xs)"
  using suffixed_neq_default(1,2)
  by (auto simp: named_groups_def dom_def RNAfold_at ss_key_iff ss_key_notin_dp
      simp del: append_eq_Cons_conv split: if_splits)

subsection \<open>The scan of RNAplot\<close>

lemma counters_RNAplot_scan:
  "name_counter (RNAplot_scan app ext xs st) = name_counter st + int (length (named_records xs))"
  "seq_counter (RNAplot_scan app ext xs st) =
     seq_counter st + int (length (anonymous_records xs))"
  by (induction xs arbitrary: st)
     (simp_all add: RNAplot_step_def named_records_def anonymous_records_def Let_def)

lemma result_RNAplot_scan:
  "result (RNAplot_scan app ext xs st) k =
     (if k \<in> ss_keys xs then Some (mkResultPath (WorkingDir app @ k @ ext)) else result st k)"
proof (induction xs arbitrary: st)
  case Nil
  then show ?case by (simp add: ss_keys_def named_records_def)
next
  case (Cons item xs)
  show ?case
  proof (cases "startswith item ''>''")
    case True
    then show ?thesis
      by (auto simp: Cons RNAplot_step_def Let_def ss_keys_def named_records_def record_name_def)
  next
    case False
    then show ?thesis
      by (simp add: Cons RNAplot_step_def ss_keys_def named_records_def)
  qed
qed

lemma RNAplot_list:
  "RNAplot_get_outfile_extension app = Inr ext \<Longrightarrow>
   RNAplot_get_result_paths fs app (ListData xs) =
     Inr (RNAplot_default app ext (RNAplot_scan app ext xs scan_init))"
  by (simp add: RNAplot_get_result_paths_def)

lemma RNAplot_at:
  "RNAplot_default app ext (RNAplot_scan app ext xs scan_init) k =
     (if k = ''SS'' then
        (if int (length (named_records xs)) < int (length (anonymous_records xs)) div 2
         then Some \<lparr>Path = WorkingDir app @ ''rna'' @ ext, IsWritten = True\<rparr> else None)
      else if k \<in> ss_keys xs then Some (mkResultPath (WorkingDir app @ k @ ext))
      else None)"
  using default_notin_keys(1)[of xs]
  by (simp add: RNAplot_default_def result_RNAplot_scan counters_RNAplot_scan scan_init_def)

lemma extension_off:
  "\<not> isOn (Parameters app ''-o'') \<Longrightarrow> RNAplot_get_outfile_extension app = Inr ''.ps''"
  by (simp add: RNAplot_get_outfile_extension_def)

lemma extension_on:
  "isOn (Parameters app ''-o'') \<Longrightarrow> RNAplot_get_outfile_extension app = Inl NameError"
  by (simp add: RNAplot_get_outfile_extension_def load_global_def module_globals_def)

lemma named_groups_RNAplot:
  "named_groups (RNAplot_default app ext (RNAplot_scan app ext xs scan_init)) =
     record_name ` set (named_records xs)"
  using suffixed_neq_default(1)
  by (auto simp: named_groups_def dom_def RNAplot_at ss_key_iff
      simp del: append_eq_Cons_conv split: if_splits)

subsection \<open>Lines written and read back\<close>

lemma readlines_line:
  "newline \<notin> set l \<Longrightarrow> readlines (l @ newline # rest) = (l @ [newline]) # readlines rest"
  by (induction l) auto

lemma readlines_join:
  "xs \<noteq> [] \<Longrightarrow> \<forall>x \<in> set xs. newline \<notin> set x \<Longrightarrow>
   readlines (join [newline] xs @ [newline]) = map (\<lambda>x. x @ [newline]) xs"
proof (induction "[newline]" xs rule: join.induct)
  case 1
  then show ?case by simp
next
  case (2 x)
  then show ?case using readlines_line[of x "[]"] by simp
next
  case (3 x y ys)
  then show ?case
    using readlines_line[of x "join [newline] (y # ys) @ [newline]"] by simp
qed

lemma Covet_file:
  "files (snd (Covet_input_as_lines tmp data st)) tmp =
     Some (join [newline] (map (\<lambda>d. strip d [newline]) data) @ [newline])"
  by (simp add: Covet_input_as_lines_def Let_def open_w_def file_write_def)

text \<open>The two adapters of \<open>Covet\<close> put the companion file first and a space between.\<close>

lemma Covet_input_as_string_tokens:
  "Covet_input_as_string base filename = filename @ ''.cm'' @ '' '' @ base filename"
  by (simp add: Covet_input_as_string_def)

lemma Covet_input_as_lines_tokens:
  "fst (Covet_input_as_lines tmp data st) = tmp @ ''.cm'' @ '' '' @ tmp"
  by (simp add: Covet_input_as_lines_def Let_def)

text \<open>A record with a newline inside is read back as two lines.\<close>

lemma Covet_interior_newline:
  "open_readlines
     (files (snd (Covet_input_as_lines ''/tmp/tmpA'' [''AC'' @ [newline] @ ''GU''] adapter_init)))
     ''/tmp/tmpA'' = Inr [''AC'' @ [newline], ''GU'' @ [newline]]"
  by (simp add: open_readlines_def Covet_file strip_def newline_def)

subsection \<open>Stripping and counting names\<close>

lemma strip_decomp:
  "\<exists>pre suf. s = pre @ strip s cs @ suf \<and> set pre \<subseteq> set cs \<and> set suf \<subseteq> set cs"
proof -
  define P where "P = (\<lambda>c. c \<in> set cs)"
  define t where "t = dropWhile P s"
  have s: "s = takeWhile P s @ t" by (simp add: t_def)
  have t: "t = rev (dropWhile P (rev t)) @ rev (takeWhile P (rev t))"
    by (simp add: rev_append[symmetric] del: rev_append)
  have st: "strip s cs = rev (dropWhile P (rev t))" by (simp add: strip_def P_def t_def)
  have p1: "set (takeWhile P s) \<subseteq> set cs"
    using set_takeWhileD[of _ P s] by (auto simp: P_def)
  have p2: "set (rev (takeWhile P (rev t))) \<subseteq> set cs"
    using set_takeWhileD[of _ P "rev t"] by (auto simp: P_def)
  have "s = takeWhile P s @ strip s cs @ rev (takeWhile P (rev t))"
    using s t st by simp
  with p1 p2 show ?thesis by blast
qed

lemma strip_ends:
  assumes "strip s cs \<noteq> []"
  shows "hd (strip s cs) \<notin> set cs \<and> last (strip s cs) \<notin> set cs"
proof -
  define P where "P = (\<lambda>c. c \<in> set cs)"
  define t where "t = dropWhile P s"
  define u where "u = dropWhile P (rev t)"
  have st: "strip s cs = rev u" by (simp add: strip_def P_def t_def u_def)
  with assms have u: "u \<noteq> []" by simp
  then have t: "t \<noteq> []" by (auto simp: u_def)
  have "\<not> P (hd u)" using u unfolding u_def by (rule hd_dropWhile)
  then have l: "last (strip s cs) \<notin> set cs" using u by (simp add: st last_rev P_def)
  have "rev t = takeWhile P (rev t) @ u" by (simp add: u_def)
  then have "last (rev t) = last u" using u by (metis last_appendR)
  then have "last u = hd t" using t by (simp add: last_rev)
  moreover have "\<not> P (hd t)" using t unfolding t_def by (rule hd_dropWhile)
  ultimately have "hd (strip s cs) \<notin> set cs" using u by (simp add: st hd_rev P_def)
  with l show ?thesis by simp
qed

lemma card_names:
  "card (record_name ` set (named_records data)) \<le> length (named_records data)"
  "distinct (map record_name (named_records data)) \<Longrightarrow>
     card (record_name ` set (named_records data)) = length (named_records data)"
proof -
  have "card (set (map record_name (named_records data))) \<le>
          length (map record_name (named_records data))"
    by (rule card_length)
  then show "card (record_name ` set (named_records data)) \<le> length (named_records data)"
    by simp
  assume "distinct (map record_name (named_records data))"
  then have "card (set (map record_name (named_records data))) =
               length (map record_name (named_records data))"
    by (rule distinct_card)
  then show "card (record_name ` set (named_records data)) = length (named_records data)"
    by simp
qed

lemma RNAplot_entry:
  "\<not> isOn (Parameters app ''-o'') \<Longrightarrow>
   entry (RNAplot_get_result_paths fs app (ListData xs)) k =
     RNAplot_default app ''.ps'' (RNAplot_scan app ''.ps'' xs scan_init) k"
  by (simp add: entry_def RNAplot_list extension_off)

lemma single_marker:
  "named_records [''>''] = [''>'']" "record_name ''>'' = []" "''_ss'' \<in> ss_keys [''>'']"
  by (simp_all add: ss_keys_def named_records_def startswith_def record_name_def strip_def)

section \<open>The claims\<close>

text \<open>
  Claim C1, as amended. RNAfold result-path resolution on the list
  \<open>['>seq1', 'ACGUACGU']\<close> returns a mapping with the key \<open>seq1_ss\<close>, whose path is the
  working directory followed by \<open>seq1_ss.ps\<close> and which is tagged written; the default
  entry \<open>SS\<close> with the path \<open>rna.ps\<close> is in the mapping too, tagged not written.
\<close>

theorem RNAfold_scenario_A_amended:
  "entry (RNAfold_get_result_paths fs app (ListData [''>seq1'', ''ACGUACGU''])) ''seq1_ss'' =
     Some \<lparr>Path = WorkingDir app @ ''seq1_ss.ps'', IsWritten = True\<rparr> \<and>
   entry (RNAfold_get_result_paths fs app (ListData [''>seq1'', ''ACGUACGU''])) ''SS'' =
     Some \<lparr>Path = WorkingDir app @ ''rna.ps'', IsWritten = False\<rparr>"
  by (simp add: entry_def RNAfold_get_result_paths_def RNAfold_defaults_def RNAfold_step_def
      scan_init_def startswith_def strip_def newline_def mkResultPath_def Let_def)

text \<open>
  Against C1 as stated: on that input, in the working directory \<open>/tmp/\<close> with the
  parameters of a fresh instance, the mapping does hold the default \<open>rna.ps\<close> entry.
\<close>

theorem RNAfold_scenario_A_default_entry_present:
  "entry (RNAfold_get_result_paths no_files (new_application ''/tmp/'' RNAfold_parameters)
            (ListData [''>seq1'', ''ACGUACGU''])) ''SS'' =
     Some \<lparr>Path = ''/tmp/rna.ps'', IsWritten = False\<rparr>"
  by (simp add: entry_def RNAfold_get_result_paths_def RNAfold_defaults_def RNAfold_step_def
      scan_init_def startswith_def new_application_def Let_def)

text \<open>
  Claim C2. In RNAplot, when the format selector \<open>-o\<close> is on and holds a value that is
  not in the table of extensions, resolving the extension raises (a \<open>NameError\<close>: the
  lookup of the table's own name fails) and does not fall back to \<open>.ps\<close>; when \<open>-o\<close>
  is not on the extension is \<open>.ps\<close>.
\<close>

theorem RNAplot_outfile_extension_unknown_format:
  "(isOn (Parameters app ''-o'') \<and> Value (Parameters app ''-o'') \<notin> dom FILETYPE_TO_EXTENSION
      \<longrightarrow> RNAplot_get_outfile_extension app = Inl NameError) \<and>
   (\<not> isOn (Parameters app ''-o'') \<longrightarrow> RNAplot_get_outfile_extension app = Inr ''.ps'')"
  by (simp add: RNAplot_get_outfile_extension_def load_global_def module_globals_def)

theorem RNAplot_outfile_extension_unknown_format_witness:
  "isOn (Parameters (new_application ''/tmp/''
           (RNAplot_parameters(''-o'' := \<lparr>isOn = True, Value = ''pdf''\<rparr>))) ''-o'') \<and>
   Value (Parameters (new_application ''/tmp/''
           (RNAplot_parameters(''-o'' := \<lparr>isOn = True, Value = ''pdf''\<rparr>))) ''-o'')
     \<notin> dom FILETYPE_TO_EXTENSION \<and>
   RNAplot_get_outfile_extension
     (new_application ''/tmp/'' (RNAplot_parameters(''-o'' := \<lparr>isOn = True, Value = ''pdf''\<rparr>)))
     = Inl NameError \<and>
   \<not> isOn (Parameters (new_application ''/tmp/'' RNAplot_parameters) ''-o'') \<and>
   RNAplot_get_outfile_extension (new_application ''/tmp/'' RNAplot_parameters) = Inr ''.ps''"
  using RNAplot_outfile_extension_unknown_format
          [of "new_application ''/tmp/''
                 (RNAplot_parameters(''-o'' := \<lparr>isOn = True, Value = ''pdf''\<rparr>))"]
        RNAplot_outfile_extension_unknown_format [of "new_application ''/tmp/'' RNAplot_parameters"]
  by (simp add: new_application_def RNAplot_parameters_def FILETYPE_TO_EXTENSION_def)

text \<open>
  Claim C4, at the input where the code departs from it. Line-based input adaptation of
  \<open>Covee\<close> on the record list \<open>['>seq1', 'ACGUACGU']\<close> emits no tokens: it raises
  \<open>TypeError\<close> and leaves the files as they were.
\<close>

theorem Covee_input_as_lines_list_raises:
  "Covee_input_as_lines super_input_as_lines (ListData [''>seq1'', ''ACGUACGU'']) st =
     (Inl TypeError, st)"
  by (simp add: Covee_input_as_lines_def)

text \<open>
  Claim C5, as amended. For every sequence of records that is not empty and whose
  records, once their leading and trailing newlines are stripped, contain no newline,
  reading back the file written by the line-based adapter of \<open>Covet\<close> yields the stripped
  records in the same order, each terminated by exactly one newline, the last included.
\<close>

theorem Covet_roundtrip_amended:
  assumes "data \<noteq> []" and "\<forall>d \<in> set data. newline \<notin> set (strip d [newline])"
  shows "open_readlines (files (snd (Covet_input_as_lines tmp data st))) tmp =
           Inr (map (\<lambda>d. strip d [newline] @ [newline]) data)"
proof -
  have "readlines (join [newline] (map (\<lambda>d. strip d [newline]) data) @ [newline]) =
        map (\<lambda>x. x @ [newline]) (map (\<lambda>d. strip d [newline]) data)"
    using assms by (intro readlines_join) auto
  then show ?thesis by (simp add: open_readlines_def Covet_file comp_def)
qed

theorem Covet_roundtrip_amended_witness:
  "[''ACGU'', ''GGCC'' @ [newline]] \<noteq> [] \<and>
   newline \<notin> set (strip ''ACGU'' [newline]) \<and>
   newline \<notin> set (strip (''GGCC'' @ [newline]) [newline]) \<and>
   open_readlines
     (files (snd (Covet_input_as_lines ''/tmp/tmpA'' [''ACGU'', ''GGCC'' @ [newline]] adapter_init)))
     ''/tmp/tmpA'' = Inr [''ACGU'' @ [newline], ''GGCC'' @ [newline]]"
  using Covet_roundtrip_amended [of "[''ACGU'', ''GGCC'' @ [newline]]" "''/tmp/tmpA''" adapter_init]
  by (simp add: strip_def newline_def)

text \<open>
  Against C5 as stated: the empty sequence of records is written as a file of one empty
  line, so one record is read back where none was written.
\<close>

theorem Covet_roundtrip_empty_counterexample:
  "open_readlines (files (snd (Covet_input_as_lines ''/tmp/tmpA'' [] adapter_init))) ''/tmp/tmpA'' =
     Inr [[newline]]"
  by (simp add: open_readlines_def Covet_file)

text \<open>
  Claim C6. In the mapping RNAfold resolves for a list of records, the entry
  \<open><name>_dp\<close> of every name-marked record is tagged written exactly when \<open>-p\<close> is on,
  and the default entry \<open>DP\<close> is tagged written exactly when \<open>-p\<close> is on and there are
  strictly more anonymous records than name-marked ones.
\<close>

theorem RNAfold_dp_written_iff_p:
  "(\<forall>item \<in> set data. startswith item ''>'' \<longrightarrow>
      (\<exists>rp. entry (RNAfold_get_result_paths fs app (ListData data))
               (record_name item @ ''_dp'') = Some rp \<and>
            IsWritten rp = isOn (Parameters app ''-p''))) \<and>
   (\<exists>dp. entry (RNAfold_get_result_paths fs app (ListData data)) ''DP'' = Some dp \<and>
         IsWritten dp = (isOn (Parameters app ''-p'') \<and>
                         length (named_records data) < length (anonymous_records data)))"
proof (intro conjI ballI impI)
  fix item assume "item \<in> set data" "startswith item ''>''"
  then have "record_name item @ ''_dp'' \<in> dp_keys data"
    by (simp add: dp_keys_def named_records_def)
  then show "\<exists>rp. entry (RNAfold_get_result_paths fs app (ListData data))
                    (record_name item @ ''_dp'') = Some rp \<and>
                 IsWritten rp = isOn (Parameters app ''-p'')"
    using suffixed_neq_default(3,4)[of "record_name item"]
    by (simp add: RNAfold_entry RNAfold_at dp_key_notin_ss del: append_eq_Cons_conv)
next
  show "\<exists>dp. entry (RNAfold_get_result_paths fs app (ListData data)) ''DP'' = Some dp \<and>
             IsWritten dp = (isOn (Parameters app ''-p'') \<and>
                             length (named_records data) < length (anonymous_records data))"
    by (simp add: RNAfold_entry RNAfold_at)
qed

theorem RNAfold_dp_written_iff_p_witness:
  "startswith ''>seq1'' ''>'' \<and>
   map_option IsWritten
     (entry (RNAfold_get_result_paths no_files
               (new_application ''/tmp/''
                  (RNAfold_parameters(''-p'' := \<lparr>isOn = True, Value = ''True''\<rparr>)))
               (ListData [''>seq1'', ''ACGUACGU'', ''GGGG''])) ''seq1_dp'') = Some True \<and>
   map_option IsWritten
     (entry (RNAfold_get_result_paths no_files
               (new_application ''/tmp/''
                  (RNAfold_parameters(''-p'' := \<lparr>isOn = True, Value = ''True''\<rparr>)))
               (ListData [''>seq1'', ''ACGUACGU'', ''GGGG''])) ''DP'') = Some True"
  using RNAfold_dp_written_iff_p [of "[''>seq1'', ''ACGUACGU'', ''GGGG'']" no_files
       "new_application ''/tmp/'' (RNAfold_parameters(''-p'' := \<lparr>isOn = True, Value = ''True''\<rparr>))"]
  by (auto simp add: startswith_def record_name_def strip_def newline_def new_application_def
      named_records_def anonymous_records_def)

text \<open>
  Claim C7. RNAfold result-path resolution on the list \<open>['ACGUACGU']\<close> returns a mapping
  whose default secondary-structure entry \<open>SS\<close> has the path \<open>rna.ps\<close> in the working
  directory and is tagged written.
\<close>

theorem RNAfold_scenario_B:
  "entry (RNAfold_get_result_paths fs app (ListData [''ACGUACGU''])) ''SS'' =
     Some \<lparr>Path = WorkingDir app @ ''rna.ps'', IsWritten = True\<rparr>"
  by (simp add: entry_def RNAfold_get_result_paths_def RNAfold_defaults_def RNAfold_step_def
      scan_init_def startswith_def)

text \<open>
  Claim C8. \<open>get_constrained_fold\<close> raises \<open>ValueError\<close> when the sequence or the
  constraint string is empty or when their lengths differ, and \<open>plot_from_seq_and_struct\<close>
  raises when the lengths of sequence and structure differ; in each case the external
  application has not been run, whatever it would have done: the world is unchanged.
\<close>

theorem helpers_raise_before_invocation:
  "(sequence = [] \<or> constraint_string = [] \<or> length sequence \<noteq> length constraint_string
      \<longrightarrow> get_constrained_fold run_RNAfold sequence constraint_string w = (Inl ValueError, w)) \<and>
   (length seq \<noteq> length struct \<longrightarrow>
      (\<exists>e. plot_from_seq_and_struct valid tmp_seqname run_RNAplot seq struct seqname w' =
             (Inl e, w')))"
  by (auto simp: get_constrained_fold_def plot_from_seq_and_struct_def ViennaStructure_def)

theorem helpers_raise_before_invocation_witness:
  "length ''ACGU'' \<noteq> length ''(..'' \<and>
   get_constrained_fold recording ''ACGU'' ''(..'' [] = (Inl ValueError, []) \<and>
   get_constrained_fold recording [] [] [] = (Inl ValueError, []) \<and>
   plot_from_seq_and_struct vienna_alphabet ''tmpAAAAAAAAA'' recording ''ACGU'' ''(.)'' None [] =
     (Inl DataError, [])"
  using helpers_raise_before_invocation
          [of "''ACGU''" "''(..''" recording "[]" "''ACGU''" "''(.)''" vienna_alphabet
              "''tmpAAAAAAAAA''" recording None "[]"]
        helpers_raise_before_invocation
          [of "[]" "[]" recording "[]" "''ACGU''" "''(.)''" vienna_alphabet
              "''tmpAAAAAAAAA''" recording None "[]"]
  by (simp add: plot_from_seq_and_struct_def ViennaStructure_def vienna_alphabet_def)

text \<open>
  Claim C9. For every list of records, the empty one included, the mapping RNAfold
  resolves holds the keys \<open>SS\<close> and \<open>DP\<close>, and the entry \<open>SS\<close> is tagged written exactly
  when there are strictly more anonymous records than name-marked ones.
\<close>

theorem RNAfold_default_keys_always_present:
  "\<exists>r ss dp. RNAfold_get_result_paths fs app (ListData data) = Inr r \<and>
     r ''SS'' = Some ss \<and> r ''DP'' = Some dp \<and>
     IsWritten ss = (length (named_records data) < length (anonymous_records data))"
  by (simp add: RNAfold_list RNAfold_at)

text \<open>
  Claim C3, as amended. For every list of N records of which K are name-marked, with
  K < N, result-path resolution registers one named artifact group for each distinct
  stripped name: at most K groups, and exactly K when the names are pairwise distinct.
  RNAfold registers the default entries \<open>SS\<close> and \<open>DP\<close> in every case and tags \<open>SS\<close>
  written exactly when the count of anonymous records strictly exceeds K. RNAplot (with
  \<open>-o\<close> not on) registers the default entry \<open>SS\<close> exactly when the count of anonymous
  records, divided by 2 rounding down, strictly exceeds K, and no other default entry.
\<close>

theorem result_paths_groups_amended:
  assumes "length (named_records data) < length data"
  shows "(\<exists>r. RNAfold_get_result_paths fs app (ListData data) = Inr r \<and>
            named_groups r = record_name ` set (named_records data) \<and>
            card (named_groups r) \<le> length (named_records data) \<and>
            (distinct (map record_name (named_records data)) \<longrightarrow>
               card (named_groups r) = length (named_records data)) \<and>
            (\<exists>ss dp. r ''SS'' = Some ss \<and> r ''DP'' = Some dp \<and>
               IsWritten ss = (length (named_records data) < length (anonymous_records data)))) \<and>
         (\<not> isOn (Parameters app ''-o'') \<longrightarrow>
           (\<exists>r. RNAplot_get_result_paths fs app (ListData data) = Inr r \<and>
              named_groups r = record_name ` set (named_records data) \<and>
              card (named_groups r) \<le> length (named_records data) \<and>
              (distinct (map record_name (named_records data)) \<longrightarrow>
                 card (named_groups r) = length (named_records data)) \<and>
              (''SS'' \<in> dom r) =
                 (int (length (named_records data)) < int (length (anonymous_records data)) div 2) \<and>
              ''DP'' \<notin> dom r))"
proof (intro conjI impI)
  show "\<exists>r. RNAfold_get_result_paths fs app (ListData data) = Inr r \<and>
            named_groups r = record_name ` set (named_records data) \<and>
            card (named_groups r) \<le> length (named_records data) \<and>
            (distinct (map record_name (named_records data)) \<longrightarrow>
               card (named_groups r) = length (named_records data)) \<and>
            (\<exists>ss dp. r ''SS'' = Some ss \<and> r ''DP'' = Some dp \<and>
               IsWritten ss = (length (named_records data) < length (anonymous_records data)))"
    by (simp add: RNAfold_list named_groups_RNAfold card_names RNAfold_at)
next
  assume "\<not> isOn (Parameters app ''-o'')"
  then have "RNAplot_get_result_paths fs app (ListData data) =
     Inr (RNAplot_default app ''.ps'' (RNAplot_scan app ''.ps'' data scan_init))"
    by (intro RNAplot_list extension_off)
  moreover have "''DP'' \<notin> dom (RNAplot_default app ''.ps'' (RNAplot_scan app ''.ps'' data scan_init))"
    using default_notin_keys(3)[of data] by (simp add: dom_def RNAplot_at)
  moreover have "(''SS'' \<in> dom (RNAplot_default app ''.ps'' (RNAplot_scan app ''.ps'' data scan_init))) =
        (int (length (named_records data)) < int (length (anonymous_records data)) div 2)"
    by (simp add: dom_def RNAplot_at)
  ultimately show "\<exists>r. RNAplot_get_result_paths fs app (ListData data) = Inr r \<and>
              named_groups r = record_name ` set (named_records data) \<and>
              card (named_groups r) \<le> length (named_records data) \<and>
              (distinct (map record_name (named_records data)) \<longrightarrow>
                 card (named_groups r) = length (named_records data)) \<and>
              (''SS'' \<in> dom r) =
                 (int (length (named_records data)) < int (length (anonymous_records data)) div 2) \<and>
              ''DP'' \<notin> dom r"
    by (simp add: named_groups_RNAplot card_names)
qed

theorem result_paths_groups_amended_witness:
  "length (named_records [''>a'', ''>b'', ''ACGU'', ''GGCC'', ''UUUU'']) <
     length [''>a'', ''>b'', ''ACGU'', ''GGCC'', ''UUUU''] \<and>
   distinct (map record_name (named_records [''>a'', ''>b'', ''ACGU'', ''GGCC'', ''UUUU''])) \<and>
   \<not> isOn (Parameters (new_application ''/tmp/'' RNAplot_parameters) ''-o'') \<and>
   card (named_groups (projr (RNAfold_get_result_paths no_files
          (new_application ''/tmp/'' RNAplot_parameters)
          (ListData [''>a'', ''>b'', ''ACGU'', ''GGCC'', ''UUUU''])))) = 2 \<and>
   card (named_groups (projr (RNAplot_get_result_paths no_files
          (new_application ''/tmp/'' RNAplot_parameters)
          (ListData [''>a'', ''>b'', ''ACGU'', ''GGCC'', ''UUUU''])))) = 2 \<and>
   ''SS'' \<notin> dom (projr (RNAplot_get_result_paths no_files
          (new_application ''/tmp/'' RNAplot_parameters)
          (ListData [''>a'', ''>b'', ''ACGU'', ''GGCC'', ''UUUU''])))"
proof -
  have n: "named_records [''>a'', ''>b'', ''ACGU'', ''GGCC'', ''UUUU''] = [''>a'', ''>b'']"
    by (simp add: named_records_def startswith_def)
  have a: "anonymous_records [''>a'', ''>b'', ''ACGU'', ''GGCC'', ''UUUU''] =
             [''ACGU'', ''GGCC'', ''UUUU'']"
    by (simp add: anonymous_records_def startswith_def)
  have d: "distinct (map record_name (named_records [''>a'', ''>b'', ''ACGU'', ''GGCC'', ''UUUU'']))"
    by (simp add: n record_name_def strip_def newline_def)
  have o: "\<not> isOn (Parameters (new_application ''/tmp/'' RNAplot_parameters) ''-o'')"
    by (simp add: new_application_def RNAplot_parameters_def)
  have l: "length (named_records [''>a'', ''>b'', ''ACGU'', ''GGCC'', ''UUUU'']) <
     length [''>a'', ''>b'', ''ACGU'', ''GGCC'', ''UUUU'']"
    by (simp add: n)
  show ?thesis
    using result_paths_groups_amended
            [OF l, of no_files "new_application ''/tmp/'' RNAplot_parameters"] d o l
    by (auto simp: n a)
qed

text \<open>
  Against C3 as stated: RNAfold on \<open>['>a', '>a', 'ACGU']\<close> has two name-marked records
  and one anonymous record, yet registers one named group, and the default entry \<open>SS\<close>
  is registered although 1 does not exceed 2.
\<close>

theorem result_paths_groups_counterexample:
  "length (named_records [''>a'', ''>a'', ''ACGU'']) = 2 \<and>
   length (anonymous_records [''>a'', ''>a'', ''ACGU'']) = 1 \<and>
   card (named_groups (projr (RNAfold_get_result_paths no_files
           (new_application ''/tmp/'' RNAfold_parameters) (ListData [''>a'', ''>a'', ''ACGU''])))) = 1 \<and>
   entry (RNAfold_get_result_paths no_files
           (new_application ''/tmp/'' RNAfold_parameters) (ListData [''>a'', ''>a'', ''ACGU''])) ''SS'' =
     Some \<lparr>Path = ''/tmp/rna.ps'', IsWritten = False\<rparr>"
proof -
  have n: "named_records [''>a'', ''>a'', ''ACGU''] = [''>a'', ''>a'']"
    by (simp add: named_records_def startswith_def)
  have a: "anonymous_records [''>a'', ''>a'', ''ACGU''] = [''ACGU'']"
    by (simp add: anonymous_records_def startswith_def)
  have "named_groups (projr (RNAfold_get_result_paths no_files
           (new_application ''/tmp/'' RNAfold_parameters) (ListData [''>a'', ''>a'', ''ACGU'']))) =
        record_name ` set (named_records [''>a'', ''>a'', ''ACGU''])"
    by (simp only: RNAfold_list sum.sel named_groups_RNAfold)
  then have g: "card (named_groups (projr (RNAfold_get_result_paths no_files
           (new_application ''/tmp/'' RNAfold_parameters) (ListData [''>a'', ''>a'', ''ACGU''])))) = 1"
    by (simp add: n)
  have "entry (RNAfold_get_result_paths no_files
           (new_application ''/tmp/'' RNAfold_parameters) (ListData [''>a'', ''>a'', ''ACGU''])) ''SS'' =
     Some \<lparr>Path = WorkingDir (new_application ''/tmp/'' RNAfold_parameters) @ ''rna.ps'',
       IsWritten = (length (named_records [''>a'', ''>a'', ''ACGU''])
                      < length (anonymous_records [''>a'', ''>a'', ''ACGU'']))\<rparr>"
    by (simp only: RNAfold_entry RNAfold_at) simp
  then have e: "entry (RNAfold_get_result_paths no_files
           (new_application ''/tmp/'' RNAfold_parameters) (ListData [''>a'', ''>a'', ''ACGU''])) ''SS'' =
     Some \<lparr>Path = ''/tmp/rna.ps'', IsWritten = False\<rparr>"
    by (simp add: n a new_application_def)
  show ?thesis using g e by (simp add: n a)
qed

text \<open>
  What the scans do with names, for RNAfold and for RNAplot while \<open>-o\<close> is not on.
  The name of a name-marked record is the record without its leading and trailing \<open>>\<close>
  and newline characters: the record is the name between two runs of such characters,
  and a name that is not empty neither starts nor ends with one. The entry
  \<open><name>_ss\<close> has the path made of the working directory, the name, \<open>_ss\<close> and
  \<open>.ps\<close>. The record \<open>>\<close> alone counts as named and registers the key \<open>_ss\<close>. The
  named groups of the mapping are the set of the names, so records with the same name
  share one entry.
\<close>

lemma record_name_strip_and_collapse:
  "(\<forall>item \<in> set data. startswith item ''>'' \<longrightarrow>
      (\<exists>pre suf. item = pre @ record_name item @ suf \<and>
          set pre \<subseteq> {CHR ''>'', newline} \<and> set suf \<subseteq> {CHR ''>'', newline}) \<and>
      (record_name item \<noteq> [] \<longrightarrow>
          hd (record_name item) \<notin> {CHR ''>'', newline} \<and>
          last (record_name item) \<notin> {CHR ''>'', newline}) \<and>
      entry (RNAfold_get_result_paths fs app (ListData data)) (record_name item @ ''_ss'') =
        Some (mkResultPath (WorkingDir app @ record_name item @ ''_ss'' @ ''.ps'')) \<and>
      (\<not> isOn (Parameters app ''-o'') \<longrightarrow>
         entry (RNAplot_get_result_paths fs app (ListData data)) (record_name item @ ''_ss'') =
           Some (mkResultPath (WorkingDir app @ record_name item @ ''_ss'' @ ''.ps'')))) \<and>
   name_counter (RNAfold_scan app [''>''] scan_init) = 1 \<and>
   entry (RNAfold_get_result_paths fs app (ListData [''>''])) ''_ss'' =
     Some (mkResultPath (WorkingDir app @ ''_ss'' @ ''.ps'')) \<and>
   (\<not> isOn (Parameters app ''-o'') \<longrightarrow>
      name_counter (RNAplot_scan app ''.ps'' [''>''] scan_init) = 1 \<and>
      entry (RNAplot_get_result_paths fs app (ListData [''>''])) ''_ss'' =
        Some (mkResultPath (WorkingDir app @ ''_ss'' @ ''.ps''))) \<and>
   (\<exists>r. RNAfold_get_result_paths fs app (ListData data) = Inr r \<and>
        named_groups r = record_name ` set (named_records data)) \<and>
   (\<not> isOn (Parameters app ''-o'') \<longrightarrow>
      (\<exists>r. RNAplot_get_result_paths fs app (ListData data) = Inr r \<and>
           named_groups r = record_name ` set (named_records data)))"
proof (intro conjI ballI impI)
  fix item
  show "\<exists>pre suf. item = pre @ record_name item @ suf \<and>
          set pre \<subseteq> {CHR ''>'', newline} \<and> set suf \<subseteq> {CHR ''>'', newline}"
    using strip_decomp[of item "[CHR ''>'', newline]"] by (simp add: record_name_def)
next
  fix item assume "record_name item \<noteq> []"
  then show "hd (record_name item) \<notin> {CHR ''>'', newline}"
    using strip_ends[of item "[CHR ''>'', newline]"] by (simp add: record_name_def)
next
  fix item assume "record_name item \<noteq> []"
  then show "last (record_name item) \<notin> {CHR ''>'', newline}"
    using strip_ends[of item "[CHR ''>'', newline]"] by (simp add: record_name_def)
next
  fix item assume "item \<in> set data" "startswith item ''>''"
  then have "record_name item @ ''_ss'' \<in> ss_keys data"
    by (simp add: ss_keys_def named_records_def)
  then show "entry (RNAfold_get_result_paths fs app (ListData data)) (record_name item @ ''_ss'') =
        Some (mkResultPath (WorkingDir app @ record_name item @ ''_ss'' @ ''.ps''))"
    using suffixed_neq_default(1,2)[of "record_name item"]
    by (simp add: RNAfold_entry RNAfold_at del: append_eq_Cons_conv)
next
  fix item assume "item \<in> set data" "startswith item ''>''" and o: "\<not> isOn (Parameters app ''-o'')"
  then have "record_name item @ ''_ss'' \<in> ss_keys data"
    by (simp add: ss_keys_def named_records_def)
  then show "entry (RNAplot_get_result_paths fs app (ListData data)) (record_name item @ ''_ss'') =
        Some (mkResultPath (WorkingDir app @ record_name item @ ''_ss'' @ ''.ps''))"
    using suffixed_neq_default(1)[of "record_name item"]
    by (simp add: RNAplot_entry[OF o] RNAplot_at del: append_eq_Cons_conv)
next
  show "name_counter (RNAfold_scan app [''>''] scan_init) = 1"
    by (simp add: counters_RNAfold_scan single_marker scan_init_def del: RNAfold_scan.simps)
next
  show "entry (RNAfold_get_result_paths fs app (ListData [''>''])) ''_ss'' =
     Some (mkResultPath (WorkingDir app @ ''_ss'' @ ''.ps''))"
    by (simp add: RNAfold_entry RNAfold_at single_marker del: RNAfold_scan.simps)
next
  show "name_counter (RNAplot_scan app ''.ps'' [''>''] scan_init) = 1"
    by (simp add: counters_RNAplot_scan single_marker scan_init_def del: RNAplot_scan.simps)
next
  assume o: "\<not> isOn (Parameters app ''-o'')"
  show "entry (RNAplot_get_result_paths fs app (ListData [''>''])) ''_ss'' =
        Some (mkResultPath (WorkingDir app @ ''_ss'' @ ''.ps''))"
    by (simp add: RNAplot_entry[OF o] RNAplot_at single_marker del: RNAplot_scan.simps)
next
  show "\<exists>r. RNAfold_get_result_paths fs app (ListData data) = Inr r \<and>
        named_groups r = record_name ` set (named_records data)"
    by (simp add: RNAfold_list named_groups_RNAfold)
next
  assume "\<not> isOn (Parameters app ''-o'')"
  then show "\<exists>r. RNAplot_get_result_paths fs app (ListData data) = Inr r \<and>
           named_groups r = record_name ` set (named_records data)"
    by (simp add: RNAplot_list extension_off named_groups_RNAplot)
qed

lemma record_name_strip_and_collapse_example:
  "startswith ''>>seq1>'' ''>'' \<and>
   record_name ''>>seq1>'' = ''seq1'' \<and> record_name (''>seq1'' @ [newline]) = ''seq1'' \<and>
   \<not> isOn (Parameters (new_application ''/tmp/'' RNAplot_parameters) ''-o'') \<and>
   entry (RNAfold_get_result_paths no_files (new_application ''/tmp/'' RNAplot_parameters)
            (ListData [''>>seq1>'', ''>seq1'' @ [newline], ''ACGU''])) ''seq1_ss'' =
     Some \<lparr>Path = ''/tmp/seq1_ss.ps'', IsWritten = True\<rparr> \<and>
   entry (RNAplot_get_result_paths no_files (new_application ''/tmp/'' RNAplot_parameters)
            (ListData [''>>seq1>'', ''>seq1'' @ [newline], ''ACGU''])) ''seq1_ss'' =
     Some \<lparr>Path = ''/tmp/seq1_ss.ps'', IsWritten = True\<rparr> \<and>
   named_groups (projr (RNAfold_get_result_paths no_files (new_application ''/tmp/'' RNAplot_parameters)
            (ListData [''>>seq1>'', ''>seq1'' @ [newline], ''ACGU'']))) = {''seq1''} \<and>
   named_groups (projr (RNAplot_get_result_paths no_files (new_application ''/tmp/'' RNAplot_parameters)
            (ListData [''>>seq1>'', ''>seq1'' @ [newline], ''ACGU'']))) = {''seq1''}"
proof -
  have s: "startswith ''>>seq1>'' ''>''"
    by (simp add: startswith_def)
  have r: "record_name ''>>seq1>'' = ''seq1''" "record_name (''>seq1'' @ [newline]) = ''seq1''"
    by (simp_all add: record_name_def strip_def newline_def)
  have o: "\<not> isOn (Parameters (new_application ''/tmp/'' RNAplot_parameters) ''-o'')"
    by (simp add: new_application_def RNAplot_parameters_def)
  have w: "WorkingDir (new_application ''/tmp/'' RNAplot_parameters) = ''/tmp/''"
    by (simp add: new_application_def)
  have m: "''>>seq1>'' \<in> set [''>>seq1>'', ''>seq1'' @ [newline], ''ACGU'']" by simp
  note t = record_name_strip_and_collapse [of "[''>>seq1>'', ''>seq1'' @ [newline], ''ACGU'']" no_files
               "new_application ''/tmp/'' RNAplot_parameters"]
  note b = t [THEN conjunct1, rule_format, OF m s]
  have e1: "entry (RNAfold_get_result_paths no_files (new_application ''/tmp/'' RNAplot_parameters)
            (ListData [''>>seq1>'', ''>seq1'' @ [newline], ''ACGU''])) ''seq1_ss'' =
     Some \<lparr>Path = ''/tmp/seq1_ss.ps'', IsWritten = True\<rparr>"
    using b [THEN conjunct2, THEN conjunct2, THEN conjunct1]
    by (simp add: r w mkResultPath_def)
  have e2: "entry (RNAplot_get_result_paths no_files (new_application ''/tmp/'' RNAplot_parameters)
            (ListData [''>>seq1>'', ''>seq1'' @ [newline], ''ACGU''])) ''seq1_ss'' =
     Some \<lparr>Path = ''/tmp/seq1_ss.ps'', IsWritten = True\<rparr>"
    using b [THEN conjunct2, THEN conjunct2, THEN conjunct2, rule_format, OF o]
    by (simp add: r w mkResultPath_def)
  note c = t [THEN conjunct2, THEN conjunct2, THEN conjunct2, THEN conjunct2]
  from c [THEN conjunct1] obtain r1 where
     "RNAfold_get_result_paths no_files (new_application ''/tmp/'' RNAplot_parameters)
            (ListData [''>>seq1>'', ''>seq1'' @ [newline], ''ACGU'']) = Inr r1"
     "named_groups r1 = record_name ` set (named_records [''>>seq1>'', ''>seq1'' @ [newline], ''ACGU''])"
    by (elim exE conjE)
  then have g1: "named_groups (projr (RNAfold_get_result_paths no_files (new_application ''/tmp/'' RNAplot_parameters)
            (ListData [''>>seq1>'', ''>seq1'' @ [newline], ''ACGU'']))) = {''seq1''}"
    by (simp add: named_records_def startswith_def record_name_def strip_def newline_def)
  from c [THEN conjunct2, rule_format, OF o] obtain r2 where
     "RNAplot_get_result_paths no_files (new_application ''/tmp/'' RNAplot_parameters)
            (ListData [''>>seq1>'', ''>seq1'' @ [newline], ''ACGU'']) = Inr r2"
     "named_groups r2 = record_name ` set (named_records [''>>seq1>'', ''>seq1'' @ [newline], ''ACGU''])"
    by (elim exE conjE)
  then have g2: "named_groups (projr (RNAplot_get_result_paths no_files (new_application ''/tmp/'' RNAplot_parameters)
            (ListData [''>>seq1>'', ''>seq1'' @ [newline], ''ACGU'']))) = {''seq1''}"
    by (simp add: named_records_def startswith_def record_name_def strip_def newline_def)
  from s r o e1 e2 g1 g2 show ?thesis by (intro conjI)
qed

text \<open>
  Claim C10, at the input where the code departs from it. An RNAplot instance whose
  format selector \<open>-o\<close> holds \<open>svg\<close>, a value of the table with the extension \<open>.svg\<close>,
  called on the list \<open>['>']\<close>: resolution raises \<open>NameError\<close> when it resolves the
  extension, before the scan, so the record is not counted and no key \<open>_ss\<close> is
  registered.
\<close>

theorem RNAplot_marker_record_with_format_raises:
  "FILETYPE_TO_EXTENSION ''svg'' = Some ''.svg'' \<and>
   RNAplot_get_result_paths no_files
     (new_application ''/tmp/'' (RNAplot_parameters(''-o'' := \<lparr>isOn = True, Value = ''svg''\<rparr>)))
     (ListData [''>'']) = Inl NameError \<and>
   entry (RNAplot_get_result_paths no_files
            (new_application ''/tmp/''
               (RNAplot_parameters(''-o'' := \<lparr>isOn = True, Value = ''svg''\<rparr>)))
            (ListData [''>''])) ''_ss'' = None"
  by (simp add: FILETYPE_TO_EXTENSION_def RNAplot_get_result_paths_def
      RNAplot_get_outfile_extension_def load_global_def module_globals_def
      new_application_def entry_def)

end
